theory Spec2Isabelle
  imports Main "HOL-Library.Sublist" "HOL-Library.AList"
begin

section \<open>Python builtins used by src/src/app.py\<close>

text \<open>
  Strings are lists of characters. The builtins below are modelled on the ASCII range,
  which is what a unified diff's headers and the severity tags are written in: a character
  above 0x7F is neither a digit nor white space for \<open>int\<close>, and \<open>upper\<close> leaves it alone.
\<close>

datatype error = ValueError | KeyError | AttributeError

text \<open>\<open>s.startswith(p)\<close>\<close>

definition startswith :: "string \<Rightarrow> string \<Rightarrow> bool" where
  "startswith s p = prefix p s"

text \<open>
  \<open>s.split(sep)\<close> for a non-empty separator: the occurrences of \<open>sep\<close> are found from the
  left, without overlap; the result has one more element than there are occurrences, so
  it is never empty. \<open>cur\<close> is the piece being read.
\<close>

fun split_from :: "string \<Rightarrow> string \<Rightarrow> string \<Rightarrow> string list" where
  "split_from sep cur [] = [cur]"
| "split_from sep cur (c # cs) =
     (if prefix sep (c # cs) then cur # split_from sep [] (drop (length sep - 1) cs)
      else split_from sep (cur @ [c]) cs)"

definition str_split :: "string \<Rightarrow> string \<Rightarrow> string list" where
  "str_split s sep = split_from sep [] s"

text \<open>\<open>sep.join(xs)\<close>, used to write a diff as its list of lines.\<close>

fun str_join :: "string \<Rightarrow> string list \<Rightarrow> string" where
  "str_join sep [] = []"
| "str_join sep [x] = x"
| "str_join sep (x # y # ys) = x @ sep @ str_join sep (y # ys)"

definition newline :: string where
  "newline = [CHR 0x0A]"

text \<open>
  \<open>int(s)\<close> on a string, base 10: white space is stripped at both ends, one sign is allowed,
  then decimal digits, where a single underscore may stand between two digits. Anything
  else raises ValueError, here \<open>None\<close>. The interpreter's bound on the number of digits
  of the literal (4300 unless configured otherwise) is left out.
\<close>

definition is_space :: "char \<Rightarrow> bool" where
  "is_space c \<longleftrightarrow> c \<in> set [CHR 0x09, CHR 0x0A, CHR 0x0B, CHR 0x0C, CHR 0x0D, CHR 0x20]"

definition is_digit :: "char \<Rightarrow> bool" where
  "is_digit c \<longleftrightarrow> c \<in> set ''0123456789''"

definition digit_val :: "char \<Rightarrow> int" where
  "digit_val c = int (of_char c) - 48"

definition strip :: "string \<Rightarrow> string" where
  "strip s = rev (dropWhile is_space (rev (dropWhile is_space s)))"

fun digits_from :: "int \<Rightarrow> string \<Rightarrow> int option" where
  "digits_from acc [] = Some acc"
| "digits_from acc (c # cs) =
     (if is_digit c then digits_from (10 * acc + digit_val c) cs
      else if c = CHR ''_'' \<and> cs \<noteq> [] \<and> is_digit (hd cs) then digits_from acc cs
      else None)"

definition unsigned_int :: "string \<Rightarrow> int option" where
  "unsigned_int s = (if s \<noteq> [] \<and> is_digit (hd s) then digits_from 0 s else None)"

definition py_int :: "string \<Rightarrow> int option" where
  "py_int s =
     (case strip s of
        [] \<Rightarrow> None
      | c # cs \<Rightarrow>
          if c = CHR ''-'' then map_option uminus (unsigned_int cs)
          else if c = CHR ''+'' then unsigned_int cs
          else unsigned_int (c # cs))"

text \<open>
  A \<open>dict\<close> keeps its keys in insertion order: storing under a key that is present replaces
  the value where it stands, storing under a new key appends. That is \<open>AList.update\<close>;
  looking a key up is \<open>map_of\<close>.
\<close>

type_synonym ('k, 'v) dict = "('k \<times> 'v) list"

section \<open>parse_diff_to_positions\<close>

text \<open>The four local variables of the function.\<close>

record pstate =
  positions_map :: "(string, (int, int) dict) dict"
  current_file :: "string option"
  diff_position :: int
  start_line :: int

definition init_state :: pstate where
  "init_state = \<lparr>positions_map = [], current_file = None, diff_position = 0, start_line = 0\<rparr>"

text \<open>
  The text \<open>int\<close> is applied to in a hunk header: of the third space-separated field,
  what stands before the first comma, without its first character.
\<close>

definition new_start_text :: "string list \<Rightarrow> string" where
  "new_start_text parts = drop 1 (hd (str_split (parts ! 2) '',''))"

text \<open>One round of the \<open>for line in diff_text.split('\n')\<close> loop.\<close>

definition loop_body :: "pstate \<Rightarrow> string \<Rightarrow> error + pstate" where
  "loop_body st line =
     (if startswith line ''diff --git'' then
        (let parts = str_split line '' b/'';
             st1 = (if length parts = 2
                    then st\<lparr>current_file := Some (parts ! 1),
                            positions_map := AList.update (parts ! 1) [] (positions_map st)\<rparr>
                    else st)
         in Inr (st1\<lparr>diff_position := 0, start_line := 0\<rparr>))
      else if startswith line ''@@'' then
        (let parts = str_split line '' '' in
         if length parts \<ge> 3 then
           (case py_int (new_start_text parts) of
              None \<Rightarrow> Inl ValueError
            | Some n \<Rightarrow> Inr (st\<lparr>start_line := n, diff_position := 0\<rparr>))
         else Inr (st\<lparr>diff_position := 0\<rparr>))
      else
        (case current_file st of
           None \<Rightarrow> Inr st
         | Some f \<Rightarrow>
             if line \<noteq> [] \<and> hd line \<in> set ''+- '' then
               (let st1 = st\<lparr>diff_position := diff_position st + 1\<rparr> in
                if hd line \<in> set ''+ '' then
                  (case map_of (positions_map st1) f of
                     None \<Rightarrow> Inl KeyError
                   | Some inner \<Rightarrow>
                       Inr (st1\<lparr>positions_map :=
                                   AList.update f
                                     (AList.update (start_line st1) (diff_position st1) inner)
                                     (positions_map st1),
                                 start_line := start_line st1 + 1\<rparr>))
                else Inr st1)
             else Inr st))"

fun run :: "pstate \<Rightarrow> string list \<Rightarrow> error + pstate" where
  "run st [] = Inr st"
| "run st (line # rest) =
     (case loop_body st line of Inl e \<Rightarrow> Inl e | Inr st' \<Rightarrow> run st' rest)"

definition parse_diff_to_positions :: "string \<Rightarrow> error + (string, (int, int) dict) dict" where
  "parse_diff_to_positions diff_text =
     (case run init_state (str_split diff_text newline) of
        Inl e \<Rightarrow> Inl e
      | Inr st \<Rightarrow> Inr (positions_map st))"

section \<open>map_ai_response_to_github_format\<close>

text \<open>
  A finding is a \<open>dict\<close> decoded from JSON; of its values the model keeps strings, integers
  and \<open>None\<close>. \<open>d.get(k)\<close> is \<open>None\<close> for a missing key, \<open>d.get(k, default)\<close> the default.
\<close>

datatype pyval = PNone | PInt int | PStr string

type_synonym finding = "(string, pyval) dict"

definition dict_get :: "finding \<Rightarrow> string \<Rightarrow> pyval" where
  "dict_get d k = (case map_of d k of None \<Rightarrow> PNone | Some v \<Rightarrow> v)"

definition dict_get_default :: "finding \<Rightarrow> string \<Rightarrow> pyval \<Rightarrow> pyval" where
  "dict_get_default d k dflt = (case map_of d k of None \<Rightarrow> dflt | Some v \<Rightarrow> v)"

text \<open>\<open>s.upper()\<close>; a value that is not a string has no such method (AttributeError).\<close>

definition upper_char :: "char \<Rightarrow> char" where
  "upper_char c =
     (if c \<in> set ''abcdefghijklmnopqrstuvwxyz'' then char_of (of_char c - (32::nat)) else c)"

definition upper :: "string \<Rightarrow> string" where
  "upper s = map upper_char s"

fun py_upper :: "pyval \<Rightarrow> error + string" where
  "py_upper (PStr s) = Inr (upper s)"
| "py_upper v = Inl AttributeError"

text \<open>What an f-string writes for a value: \<open>format(v, '')\<close>.\<close>

fun str_nat :: "nat \<Rightarrow> string" where
  "str_nat n =
     (if n < 10 then [char_of (48 + n)] else str_nat (n div 10) @ [char_of (48 + n mod 10)])"

fun py_format :: "pyval \<Rightarrow> string" where
  "py_format (PStr s) = s"
| "py_format (PInt i) = (if i < 0 then ''-'' @ str_nat (nat (- i)) else str_nat (nat i))"
| "py_format PNone = ''None''"

text \<open>
  \<open>key in d\<close> and \<open>d[key]\<close> where the keys of \<open>d\<close> are strings (the outer mapping) or integers
  (a file's inner mapping): a key of another type is hashable and equal to none of them.
\<close>

fun lookup_file :: "(string, 'v) dict \<Rightarrow> pyval \<Rightarrow> 'v option" where
  "lookup_file d (PStr s) = map_of d s"
| "lookup_file d v = None"

fun lookup_line :: "(int, 'v) dict \<Rightarrow> pyval \<Rightarrow> 'v option" where
  "lookup_line d (PInt n) = map_of d n"
| "lookup_line d v = None"

record github_comment =
  path :: pyval
  position :: int
  body :: string

text \<open>
  The \<open>for issue in ai_response_json\<close> loop, with the list \<open>github_comments\<close> it appends to.
  The two \<open>print\<close> calls on the skipping branches write a warning and change nothing else.
\<close>

fun translate_loop ::
  "(string, (int, int) dict) dict \<Rightarrow> finding list \<Rightarrow> github_comment list
     \<Rightarrow> error + github_comment list" where
  "translate_loop diff_positions_map [] github_comments = Inr github_comments"
| "translate_loop diff_positions_map (issue # rest) github_comments =
     (let file_path = dict_get issue ''file_path'';
          line_number = dict_get issue ''line_number''
      in case py_upper (dict_get_default issue ''severity'' (PStr ''info'')) of
           Inl e \<Rightarrow> Inl e
         | Inr severity \<Rightarrow>
             (let comment = dict_get_default issue ''comment'' (PStr [])
              in case lookup_file diff_positions_map file_path of
                   None \<Rightarrow> translate_loop diff_positions_map rest github_comments
                 | Some inner \<Rightarrow>
                     (case lookup_line inner line_number of
                        None \<Rightarrow> translate_loop diff_positions_map rest github_comments
                      | Some pos \<Rightarrow>
                          translate_loop diff_positions_map rest
                            (github_comments @
                               [\<lparr>path = file_path, position = pos,
                                 body = ''**['' @ severity @ '']** '' @ py_format comment\<rparr>]))))"

definition map_ai_response_to_github_format ::
  "finding list \<Rightarrow> (string, (int, int) dict) dict \<Rightarrow> error + github_comment list" where
  "map_ai_response_to_github_format ai_response_json diff_positions_map =
     translate_loop diff_positions_map ai_response_json []"

section \<open>Notions the properties are stated with\<close>

subsection \<open>The indexer\<close>

text \<open>
  A hunk header the loop gets through: when the line takes the \<open>@@\<close> branch and has at
  least three space-separated fields, \<open>int\<close> accepts the text it is given.
\<close>

definition hunk_header_parses :: "string \<Rightarrow> bool" where
  "hunk_header_parses line \<longleftrightarrow>
     (\<not> startswith line ''diff --git'' \<and> startswith line ''@@''
        \<and> length (str_split line '' '') \<ge> 3
      \<longrightarrow> py_int (new_start_text (str_split line '' '')) \<noteq> None)"

text \<open>The current file, once set, is a key of the outer mapping.\<close>

definition file_registered :: "pstate \<Rightarrow> bool" where
  "file_registered st \<longleftrightarrow>
     (case current_file st of None \<Rightarrow> True | Some f \<Rightarrow> map_of (positions_map st) f \<noteq> None)"

definition is_header :: "string \<Rightarrow> bool" where
  "is_header line \<longleftrightarrow> startswith line ''diff --git'' \<or> startswith line ''@@''"

definition hunk_line :: "string \<Rightarrow> bool" where
  "hunk_line line \<longleftrightarrow> line \<noteq> [] \<and> hd line \<in> set ''+- ''"

definition recorded_line :: "string \<Rightarrow> bool" where
  "recorded_line line \<longleftrightarrow> line \<noteq> [] \<and> hd line \<in> set ''+ ''"

text \<open>
  The entries of one hunk as the specification words them (its section 4.1, step 4): a
  line that is empty or begins with none of \<open>+\<close>, \<open>-\<close> and space is ignored; any other line
  increments the position counter; an added or context line is recorded under the next
  new-file line number, which then advances; a deleted line is not recorded. The list is
  in diff order.
\<close>

fun hunk_entries :: "int \<Rightarrow> int \<Rightarrow> string list \<Rightarrow> (int \<times> int) list" where
  "hunk_entries next_new_line position_counter [] = []"
| "hunk_entries next_new_line position_counter (line # rest) =
     (if line = [] \<or> hd line \<notin> set ''+- '' then
        hunk_entries next_new_line position_counter rest
      else if hd line = CHR ''-'' then
        hunk_entries next_new_line (position_counter + 1) rest
      else (next_new_line, position_counter + 1)
             # hunk_entries (next_new_line + 1) (position_counter + 1) rest)"

definition store_entries :: "(int \<times> int) list \<Rightarrow> (int, int) dict \<Rightarrow> (int, int) dict" where
  "store_entries entries inner = fold (\<lambda>(k, v). AList.update k v) entries inner"

text \<open>The positions held by a file's inner mapping, in the order its keys were first stored.\<close>

definition positions_of :: "(string, (int, int) dict) dict \<Rightarrow> string \<Rightarrow> int list" where
  "positions_of index f = (case map_of index f of None \<Rightarrow> [] | Some inner \<Rightarrow> map snd inner)"

subsection \<open>The translator\<close>

fun is_str :: "pyval \<Rightarrow> bool" where
  "is_str (PStr s) = True"
| "is_str v = False"

fun is_positive_int :: "pyval \<Rightarrow> bool" where
  "is_positive_int (PInt n) = (0 < n)"
| "is_positive_int v = False"

fun str_of :: "pyval \<Rightarrow> string" where
  "str_of (PStr s) = s"
| "str_of v = []"

definition has_field :: "finding \<Rightarrow> string \<Rightarrow> (pyval \<Rightarrow> bool) \<Rightarrow> bool" where
  "has_field issue k ok = (case map_of issue k of None \<Rightarrow> False | Some v \<Rightarrow> ok v)"

text \<open>
  A well-formed Finding of the data model: a string \<open>file_path\<close>, a positive integer
  \<open>line_number\<close>, a string \<open>severity\<close> and a string \<open>comment\<close>.
\<close>

definition well_formed :: "finding \<Rightarrow> bool" where
  "well_formed issue \<longleftrightarrow>
     has_field issue ''file_path'' is_str \<and> has_field issue ''line_number'' is_positive_int \<and>
     has_field issue ''severity'' is_str \<and> has_field issue ''comment'' is_str"

text \<open>The severity is a string where the finding has one.\<close>

definition severity_is_str :: "finding \<Rightarrow> bool" where
  "severity_is_str issue = is_str (dict_get_default issue ''severity'' (PStr ''info''))"

text \<open>
  The translation of one finding as the specification words it (its section 4.2): skipped
  when \<open>file_path\<close> is absent from the index, skipped when \<open>line_number\<close> is absent from
  that file's inner mapping, else a record with the indexed position, the finding's path
  and the bold upper-cased severity tag followed by the comment text.
\<close>

definition comment_for ::
  "(string, (int, int) dict) dict \<Rightarrow> finding \<Rightarrow> github_comment option" where
  "comment_for index issue =
     (case lookup_file index (dict_get issue ''file_path'') of
        None \<Rightarrow> None
      | Some inner \<Rightarrow>
          (case lookup_line inner (dict_get issue ''line_number'') of
             None \<Rightarrow> None
           | Some pos \<Rightarrow>
               Some \<lparr>path = dict_get issue ''file_path'', position = pos,
                     body = ''**[''
                       @ upper (str_of (dict_get_default issue ''severity'' (PStr ''info'')))
                       @ '']** '' @ py_format (dict_get_default issue ''comment'' (PStr []))\<rparr>))"

subsection \<open>The inputs of the scenarios\<close>

definition scenario1_diff :: string where
  "scenario1_diff = str_join newline
     [''diff --git a/src/config.py b/src/config.py'',
      ''@@ -5,10 +5,11 @@'',
      '' # Configuration file'',
      '' MAX_RETRIES = 3'',
      '' TIMEOUT = 30'',
      ''-DEBUG = True'',
      ''+DEBUG = False'',
      '' '',
      '' def load_config():'',
      ''+    print(\"Loading config...\")'',
      '' return {...}'']"

definition scenario2_finding :: finding where
  "scenario2_finding =
     [(''file_path'', PStr ''src/config.py''), (''line_number'', PInt 8),
      (''severity'', PStr ''error''), (''comment'', PStr ''x'')]"

text \<open>A diff whose hunk header has the new-file start \<open>x\<close>.\<close>

definition unparsable_header_diff :: string where
  "unparsable_header_diff = str_join newline
     [''diff --git a/f.py b/f.py'',
      ''@@ -5,10 +x,11 @@'',
      ''+a'']"

text \<open>One file with two hunks.\<close>

definition two_hunk_diff :: string where
  "two_hunk_diff = str_join newline
     [''diff --git a/f.py b/f.py'',
      ''@@ -1,1 +1,2 @@'',
      '' a'',
      ''+b'',
      ''@@ -10,1 +11,2 @@'',
      '' c'',
      ''+d'']"

text \<open>
  The head of the sample diff of src/src/test_vj_mapping.py, with the \<open>---\<close> and \<open>+++\<close>
  lines every diff of a changed file has between its file header and its first hunk.
\<close>

definition sample_diff_head :: string where
  "sample_diff_head = str_join newline
     [''diff --git a/src/config.py b/src/config.py'',
      ''index 1234567..abcdefg 100644'',
      ''--- a/src/config.py'',
      ''+++ b/src/config.py'',
      ''@@ -5,10 +5,11 @@ import os'',
      '' # Configuration file'',
      '' MAX_RETRIES = 3'']"

section \<open>Lemmas on the indexer's loop\<close>

lemma run_append:
  "run st (xs @ ys) = (case run st xs of Inl e \<Rightarrow> Inl e | Inr st' \<Rightarrow> run st' ys)"
  by (induction xs arbitrary: st) (simp_all split: sum.splits)

lemma file_registered_init: "file_registered init_state"
  by (simp add: file_registered_def init_state_def)

lemma loop_body_registered:
  assumes "file_registered st" and "loop_body st line = Inr st'"
  shows "file_registered st'"
  using assms
  by (auto simp: loop_body_def file_registered_def Let_def update_conv'
           split: if_splits option.splits)

lemma run_registered:
  assumes "file_registered st" and "run st ls = Inr st'"
  shows "file_registered st'"
  using assms
proof (induction ls arbitrary: st)
  case Nil
  then show ?case by simp
next
  case (Cons l ls)
  then show ?case
    by (auto split: sum.splits dest: loop_body_registered)
qed

lemma loop_body_returns:
  assumes "file_registered st" and "hunk_header_parses line"
  shows "\<exists>st'. loop_body st line = Inr st'"
  using assms
  by (auto simp: loop_body_def file_registered_def hunk_header_parses_def Let_def
           split: if_splits option.splits)

lemma run_returns:
  assumes "file_registered st" and "\<forall>line \<in> set ls. hunk_header_parses line"
  shows "\<exists>st'. run st ls = Inr st'"
  using assms
proof (induction ls arbitrary: st)
  case Nil
  then show ?case by simp
next
  case (Cons l ls)
  then obtain st1 where s: "loop_body st l = Inr st1"
    using loop_body_returns by (metis list.set_intros(1))
  with Cons.prems have "file_registered st1" using loop_body_registered by blast
  with Cons s show ?case by simp
qed

lemma hunk_header_not_file_header:
  "startswith line ''@@'' \<Longrightarrow> \<not> startswith line ''diff --git''"
  by (auto simp: startswith_def prefix_def)

lemma short_hunk_header:
  assumes "startswith line ''@@''" and "length (str_split line '' '') < 3"
  shows "loop_body st line = Inr (st\<lparr>diff_position := 0\<rparr>)"
  using assms hunk_header_not_file_header [of line]
  by (simp add: loop_body_def Let_def)

lemma hunk_header_resets:
  assumes "startswith line ''@@''" and "loop_body st line = Inr st'"
  shows "diff_position st' = 0"
  using assms hunk_header_not_file_header [of line]
  by (auto simp: loop_body_def Let_def split: if_splits option.splits)

lemma loop_body_hunk_line:
  assumes "\<not> is_header line" "current_file st = Some f" "map_of (positions_map st) f = Some inner"
  shows "loop_body st line =
     Inr (if recorded_line line then
            st\<lparr>positions_map := AList.update f
                    (AList.update (start_line st) (diff_position st + 1) inner) (positions_map st),
               diff_position := diff_position st + 1, start_line := start_line st + 1\<rparr>
          else if hunk_line line then st\<lparr>diff_position := diff_position st + 1\<rparr>
          else st)"
  using assms
  by (auto simp: loop_body_def is_header_def hunk_line_def recorded_line_def Let_def)

text \<open>
  The lines of a hunk body, run from a state with a registered current file, store the
  entries of the specification, in their order, and advance both counters.
\<close>

lemma hunk_run:
  assumes "current_file st = Some f" "map_of (positions_map st) f = Some inner"
    and "\<forall>line \<in> set lines. \<not> is_header line"
  shows "run st lines =
     Inr (st\<lparr>positions_map := AList.update f
                 (store_entries (hunk_entries (start_line st) (diff_position st) lines) inner)
                 (positions_map st),
            diff_position := diff_position st + int (length (filter hunk_line lines)),
            start_line := start_line st + int (length (filter recorded_line lines))\<rparr>)"
  using assms
proof (induction lines arbitrary: st inner)
  case Nil
  then show ?case by (simp add: store_entries_def update_triv)
next
  case (Cons l ls)
  have nh: "\<not> is_header l" using Cons.prems(3) by simp
  have rest: "\<forall>line \<in> set ls. \<not> is_header line" using Cons.prems(3) by simp
  note step = loop_body_hunk_line [OF nh Cons.prems(1) Cons.prems(2)]
  consider (rec) "recorded_line l" | (del) "\<not> recorded_line l" "hunk_line l"
    | (skip) "\<not> recorded_line l" "\<not> hunk_line l" by blast
  then show ?case
  proof cases
    case rec
    let ?inner = "AList.update (start_line st) (diff_position st + 1) inner"
    let ?st = "st\<lparr>positions_map := AList.update f ?inner (positions_map st),
               diff_position := diff_position st + 1, start_line := start_line st + 1\<rparr>"
    have s: "loop_body st l = Inr ?st" using step rec by simp
    have hl: "hunk_line l" using rec by (auto simp: hunk_line_def recorded_line_def)
    have e: "hunk_entries (start_line st) (diff_position st) (l # ls) =
             (start_line st, diff_position st + 1)
               # hunk_entries (start_line st + 1) (diff_position st + 1) ls"
      using rec by (auto simp: recorded_line_def)
    have "current_file ?st = Some f" using Cons.prems(1) by simp
    moreover have "map_of (positions_map ?st) f = Some ?inner" by (simp add: update_conv')
    ultimately have "run ?st ls = Inr (?st\<lparr>positions_map := AList.update f
                 (store_entries (hunk_entries (start_line ?st) (diff_position ?st) ls) ?inner)
                 (positions_map ?st),
            diff_position := diff_position ?st + int (length (filter hunk_line ls)),
            start_line := start_line ?st + int (length (filter recorded_line ls))\<rparr>)"
      using Cons.IH rest by blast
    then show ?thesis using s e rec hl by (simp add: store_entries_def)
  next
    case del
    let ?st = "st\<lparr>diff_position := diff_position st + 1\<rparr>"
    have s: "loop_body st l = Inr ?st" using step del by simp
    have e: "hunk_entries (start_line st) (diff_position st) (l # ls) =
             hunk_entries (start_line st) (diff_position st + 1) ls"
      using del by (auto simp: recorded_line_def hunk_line_def)
    have "run ?st ls = Inr (?st\<lparr>positions_map := AList.update f
                 (store_entries (hunk_entries (start_line ?st) (diff_position ?st) ls) inner)
                 (positions_map ?st),
            diff_position := diff_position ?st + int (length (filter hunk_line ls)),
            start_line := start_line ?st + int (length (filter recorded_line ls))\<rparr>)"
      using Cons.IH [of ?st inner] rest Cons.prems by simp
    then show ?thesis using s e del by simp
  next
    case skip
    have s: "loop_body st l = Inr st" using step skip by simp
    have e: "hunk_entries (start_line st) (diff_position st) (l # ls) =
             hunk_entries (start_line st) (diff_position st) ls"
      using skip by (auto simp: recorded_line_def hunk_line_def)
    show ?thesis using Cons.IH [OF Cons.prems(1) Cons.prems(2) rest] s e skip by simp
  qed
qed

lemma hunk_entries_above:
  "(k, v) \<in> set (hunk_entries n p lines) \<Longrightarrow> p < v \<and> n \<le> k"
  by (induction lines arbitrary: n p) (fastforce split: if_splits)+

lemma hunk_entries_increasing:
  "sorted_wrt (<) (map snd (hunk_entries n p lines))"
  by (induction lines arbitrary: n p) (auto dest: hunk_entries_above)

section \<open>Lemmas on the translator's loop\<close>

lemma well_formed_severity: "well_formed issue \<Longrightarrow> severity_is_str issue"
  by (auto simp: well_formed_def has_field_def severity_is_str_def dict_get_default_def
           split: option.splits)

lemma py_upper_str: "is_str v \<Longrightarrow> py_upper v = Inr (upper (str_of v))"
  by (cases v) simp_all

lemma upper_info: "upper ''info'' = ''INFO''"
  by code_simp

text \<open>
  While no severity is of the wrong type the loop appends, to what it has collected, the
  records of the findings that are not skipped, in the order of the findings.
\<close>

lemma translate_loop_spec:
  assumes "\<forall>issue \<in> set findings. severity_is_str issue"
  shows "translate_loop index findings acc
           = Inr (acc @ List.map_filter (comment_for index) findings)"
  using assms
proof (induction findings arbitrary: acc)
  case Nil
  then show ?case by (simp add: map_filter_simps)
next
  case (Cons issue rest)
  have u: "py_upper (dict_get_default issue ''severity'' (PStr ''info''))
           = Inr (upper (str_of (dict_get_default issue ''severity'' (PStr ''info''))))"
    using Cons.prems by (simp add: py_upper_str severity_is_str_def)
  have r: "\<forall>issue \<in> set rest. severity_is_str issue" using Cons.prems by simp
  show ?case
    by (simp add: u Cons.IH [OF r] comment_for_def map_filter_simps Let_def
             split: option.splits)
qed

lemma length_map_filter_le: "length (List.map_filter f xs) \<le> length xs"
  by (induction xs) (auto simp: map_filter_simps split: option.splits)

lemma comment_for_empty: "comment_for [] issue = None"
  by (cases "dict_get issue ''file_path''") (simp_all add: comment_for_def)

lemma map_filter_none: "List.map_filter (\<lambda>x. None) xs = []"
  by (induction xs) (simp_all add: map_filter_simps)

section \<open>The indexer: properties\<close>

text \<open>
  Claim C1, as the specification has it: for every input string, also one with a hunk
  header whose \<open>+start,count\<close> field is no integer, \<open>parse_diff_to_positions\<close> returns
  normally, and an unparsable hunk header leaves both counters as they were.

  The function has no handler around \<open>int\<close>: on the header \<open>@@ -5,10 +x,11 @@\<close> the
  conversion raises ValueError and the call ends there. And a hunk header with fewer than
  three fields, which the \<open>len(parts) >= 3\<close> guard steps over, keeps the line counter but
  still sets the position counter to 0.
\<close>

theorem unparsable_hunk_header_raises:
  "parse_diff_to_positions unparsable_header_diff = Inl ValueError
   \<and> loop_body \<lparr>positions_map = [(''f.py'', [(7, 3)])], current_file = Some ''f.py'',
                 diff_position = 3, start_line = 8\<rparr> ''@@''
     = Inr \<lparr>positions_map = [(''f.py'', [(7, 3)])], current_file = Some ''f.py'',
            diff_position = 0, start_line = 8\<rparr>"
  by code_simp

text \<open>
  Claim C1, amended: \<open>parse_diff_to_positions\<close> returns normally for every diff text in
  which each hunk header with at least three space-separated fields carries a new-file
  start that \<open>int\<close> accepts; a hunk header with fewer than three fields leaves the line
  counter at its prior value and sets the position counter to 0.
\<close>

theorem parse_returns_when_hunk_headers_parse:
  "((\<forall>line \<in> set (str_split diff_text newline). hunk_header_parses line)
      \<longrightarrow> (\<exists>index. parse_diff_to_positions diff_text = Inr index))
   \<and> (startswith line ''@@'' \<and> length (str_split line '' '') < 3
      \<longrightarrow> loop_body st line = Inr (st\<lparr>diff_position := 0\<rparr>))"
proof (intro conjI impI)
  assume "\<forall>line \<in> set (str_split diff_text newline). hunk_header_parses line"
  then obtain st' where "run init_state (str_split diff_text newline) = Inr st'"
    using run_returns [OF file_registered_init] by blast
  then show "\<exists>index. parse_diff_to_positions diff_text = Inr index"
    by (simp add: parse_diff_to_positions_def)
next
  assume "startswith line ''@@'' \<and> length (str_split line '' '') < 3"
  then show "loop_body st line = Inr (st\<lparr>diff_position := 0\<rparr>)"
    using short_hunk_header by blast
qed

theorem parse_returns_when_hunk_headers_parse_witness:
  "(\<exists>index. parse_diff_to_positions two_hunk_diff = Inr index)
   \<and> startswith ''@@ -3'' ''@@'' \<and> length (str_split ''@@ -3'' '' '') < 3
   \<and> loop_body \<lparr>positions_map = [(''f.py'', [(7, 3)])], current_file = Some ''f.py'',
                 diff_position = 3, start_line = 8\<rparr> ''@@ -3''
     = Inr (\<lparr>positions_map = [(''f.py'', [(7, 3)])], current_file = Some ''f.py'',
             diff_position = 3, start_line = 8\<rparr>\<lparr>diff_position := 0\<rparr>)"
proof -
  have h1: "\<forall>line \<in> set (str_split two_hunk_diff newline). hunk_header_parses line"
    by code_simp
  have h2: "startswith ''@@ -3'' ''@@'' \<and> length (str_split ''@@ -3'' '' '') < 3"
    by code_simp
  note t = parse_returns_when_hunk_headers_parse
    [of two_hunk_diff "''@@ -3''"
        "\<lparr>positions_map = [(''f.py'', [(7, 3)])], current_file = Some ''f.py'',
          diff_position = 3, start_line = 8\<rparr>"]
  from t h1 have c1: "\<exists>index. parse_diff_to_positions two_hunk_diff = Inr index"
    by blast
  from t h2 have c2: "loop_body \<lparr>positions_map = [(''f.py'', [(7, 3)])],
      current_file = Some ''f.py'', diff_position = 3, start_line = 8\<rparr> ''@@ -3''
     = Inr (\<lparr>positions_map = [(''f.py'', [(7, 3)])], current_file = Some ''f.py'',
             diff_position = 3, start_line = 8\<rparr>\<lparr>diff_position := 0\<rparr>)"
    by blast
  from h2 c1 c2 show ?thesis by blast
qed

text \<open>
  Claim C2, as the specification has it: for every diff text and file, the positions of
  the file's recorded lines, in diff order, are strictly increasing and numbered
  continuously across all hunks of the file.

  The loop sets the position counter to 0 at every hunk header, so the second hunk of a
  file starts again at 1.
\<close>

theorem positions_restart_in_second_hunk:
  "parse_diff_to_positions two_hunk_diff
     = Inr [(''f.py'', [(1, 1), (2, 2), (11, 1), (12, 2)])]
   \<and> \<not> sorted_wrt (<) (positions_of [(''f.py'', [(1, 1), (2, 2), (11, 1), (12, 2)])] ''f.py'')"
  by code_simp

text \<open>
  Claim C2, amended: within each hunk, that is the lines after a hunk header up to the next
  \<open>@@\<close> or \<open>diff --git\<close> line, the positions assigned to the recorded lines, in diff
  order, are strictly increasing and at least 1, every \<open>+\<close>, \<open>-\<close> or space line of the hunk
  counting one; the position counter is 0 after every hunk header, so the numbering starts
  again in each hunk of a file.
\<close>

theorem hunk_positions_strictly_increasing:
  assumes "run init_state (before @ [header]) = Inr st"
    and "startswith header ''@@''"
    and "current_file st = Some f"
    and "\<forall>line \<in> set hunk. \<not> is_header line"
  shows "diff_position st = 0
    \<and> (\<exists>inner. map_of (positions_map st) f = Some inner
          \<and> run st hunk =
              Inr (st\<lparr>positions_map := AList.update f
                         (store_entries (hunk_entries (start_line st) 0 hunk) inner)
                         (positions_map st),
                      diff_position := int (length (filter hunk_line hunk)),
                      start_line := start_line st + int (length (filter recorded_line hunk))\<rparr>))
    \<and> sorted_wrt (<) (map snd (hunk_entries (start_line st) 0 hunk))
    \<and> (\<forall>(k, v) \<in> set (hunk_entries (start_line st) 0 hunk). 1 \<le> v)"
proof -
  from assms(1) obtain st0 where b: "run init_state before = Inr st0"
    and h: "loop_body st0 header = Inr st"
    by (auto simp: run_append split: sum.splits)
  have zero: "diff_position st = 0" using hunk_header_resets [OF assms(2) h] .
  have "file_registered st"
    using run_registered [OF file_registered_init assms(1)] .
  then obtain inner where inner: "map_of (positions_map st) f = Some inner"
    using assms(3) by (auto simp: file_registered_def)
  have r: "run st hunk =
              Inr (st\<lparr>positions_map := AList.update f
                         (store_entries (hunk_entries (start_line st) 0 hunk) inner)
                         (positions_map st),
                      diff_position := int (length (filter hunk_line hunk)),
                      start_line := start_line st + int (length (filter recorded_line hunk))\<rparr>)"
    using hunk_run [OF assms(3) inner assms(4)] zero by simp
  have pos: "\<forall>(k, v) \<in> set (hunk_entries (start_line st) 0 hunk). 1 \<le> v"
    using hunk_entries_above [of _ _ "start_line st" 0 hunk] by fastforce
  show ?thesis using zero inner r hunk_entries_increasing pos by blast
qed

theorem hunk_positions_strictly_increasing_witness:
  "run init_state ([''diff --git a/f.py b/f.py'', ''@@ -1,1 +1,2 @@'', '' a'', ''+b'']
                    @ [''@@ -10,2 +11,2 @@''])
     = Inr \<lparr>positions_map = [(''f.py'', [(1, 1), (2, 2)])], current_file = Some ''f.py'',
            diff_position = 0, start_line = 11\<rparr>
   \<and> startswith ''@@ -10,2 +11,2 @@'' ''@@''
   \<and> \<not> is_header '' c'' \<and> \<not> is_header ''-d'' \<and> \<not> is_header ''+e''
   \<and> run \<lparr>positions_map = [(''f.py'', [(1, 1), (2, 2)])], current_file = Some ''f.py'',
           diff_position = 0, start_line = 11\<rparr> ['' c'', ''-d'', ''+e'']
     = Inr \<lparr>positions_map = [(''f.py'', [(1, 1), (2, 2), (11, 1), (12, 3)])],
            current_file = Some ''f.py'', diff_position = 3, start_line = 13\<rparr>
   \<and> hunk_entries 11 0 ['' c'', ''-d'', ''+e''] = [(11, 1), (12, 3)]
   \<and> sorted_wrt (<) (map snd (hunk_entries 11 0 ['' c'', ''-d'', ''+e'']))"
proof -
  let ?st = "\<lparr>positions_map = [(''f.py'', [(1, 1), (2, 2)])],
              current_file = Some ''f.py'', diff_position = 0, start_line = 11\<rparr>"
  have h1: "run init_state
      ([''diff --git a/f.py b/f.py'', ''@@ -1,1 +1,2 @@'', '' a'', ''+b'']
         @ [''@@ -10,2 +11,2 @@'']) = Inr ?st"
    by code_simp
  have h2: "startswith ''@@ -10,2 +11,2 @@'' ''@@''" by code_simp
  have h3: "current_file ?st = Some ''f.py''" by simp
  have h4: "\<forall>line \<in> set ['' c'', ''-d'', ''+e'']. \<not> is_header line" by code_simp
  have e: "hunk_entries 11 0 ['' c'', ''-d'', ''+e''] = [(11, 1), (12, 3)]" by code_simp
  have r: "run ?st ['' c'', ''-d'', ''+e'']
     = Inr \<lparr>positions_map = [(''f.py'', [(1, 1), (2, 2), (11, 1), (12, 3)])],
            current_file = Some ''f.py'', diff_position = 3, start_line = 13\<rparr>"
    by code_simp
  from hunk_positions_strictly_increasing [OF h1 h2 h3 h4]
  have "sorted_wrt (<) (map snd (hunk_entries 11 0 ['' c'', ''-d'', ''+e'']))"
    by simp
  moreover have "\<not> is_header '' c'' \<and> \<not> is_header ''-d'' \<and> \<not> is_header ''+e''"
    using h4 by simp
  ultimately show ?thesis using h1 h2 e r by blast
qed

text \<open>
  Claim C3: every key of a file's inner mapping is the new-file line number of an added or
  context line of a hunk; deleted lines are never keys and no other kind of line
  contributes a key.

  The comments in the loop say that file headers are skipped and that the lines counted
  are those of the hunk, but once \<open>diff --git\<close> has set the current file the \<open>---\<close> and
  \<open>+++\<close> header lines that follow are counted as a deleted and an added line: the
  \<open>+++ b/src/config.py\<close> line of the repository's own sample diff is stored under the key
  0 with position 2, before the first hunk has begun.
\<close>

theorem plus_header_line_is_recorded:
  "parse_diff_to_positions sample_diff_head
     = Inr [(''src/config.py'', [(0, 2), (5, 1), (6, 2)])]"
  by code_simp

text \<open>
  Claim C4 (Scenario 1): for the diff of the file header
  \<open>diff --git a/src/config.py b/src/config.py\<close>, the hunk header \<open>@@ -5,10 +5,11 @@\<close> and
  the nine body lines, the index maps, for src/config.py, line 5 to position 1, 6 to 2,
  7 to 3, 8 to 5, 9 to 6, 10 to 7, 11 to 8 and 12 to 9. These are all its entries.
\<close>

theorem scenario1_index:
  "parse_diff_to_positions scenario1_diff
     = Inr [(''src/config.py'',
             [(5, 1), (6, 2), (7, 3), (8, 5), (9, 6), (10, 7), (11, 8), (12, 9)])]"
  by code_simp

section \<open>The translator: properties\<close>

text \<open>
  Claim C5 (Scenario 2): the finding with file_path src/config.py, line_number 8, severity
  error and comment x, translated against the index of Scenario 1's diff, gives exactly
  the record with path src/config.py, position 5 and body \<open>**[ERROR]** x\<close>.
\<close>

theorem scenario2_comment:
  "(case parse_diff_to_positions scenario1_diff of
      Inl e \<Rightarrow> False
    | Inr index \<Rightarrow>
        map_ai_response_to_github_format [scenario2_finding] index
          = Inr [\<lparr>path = PStr ''src/config.py'', position = 5, body = ''**[ERROR]** x''\<rparr>])"
  by code_simp

text \<open>
  Claim C6 (skip-safety): for every list of well-formed findings and every index,
  \<open>map_ai_response_to_github_format\<close> does not raise, and its output is no longer than
  its input.
\<close>

theorem translate_skip_safety:
  assumes "\<forall>issue \<in> set findings. well_formed issue"
  shows "\<exists>out. map_ai_response_to_github_format findings index = Inr out
               \<and> length out \<le> length findings"
proof -
  have "\<forall>issue \<in> set findings. severity_is_str issue"
    using assms well_formed_severity by blast
  then have "map_ai_response_to_github_format findings index
               = Inr (List.map_filter (comment_for index) findings)"
    using translate_loop_spec [of findings index "[]"]
    by (simp add: map_ai_response_to_github_format_def)
  then show ?thesis by (simp add: length_map_filter_le)
qed

theorem translate_skip_safety_witness:
  "well_formed scenario2_finding
   \<and> well_formed [(''file_path'', PStr ''missing.py''), (''line_number'', PInt 3),
                    (''severity'', PStr ''warning''), (''comment'', PStr ''y'')]
   \<and> (\<exists>out. map_ai_response_to_github_format
               [scenario2_finding,
                [(''file_path'', PStr ''missing.py''), (''line_number'', PInt 3),
                 (''severity'', PStr ''warning''), (''comment'', PStr ''y'')]]
               [(''src/config.py'', [(8, 5)])] = Inr out
             \<and> length out
                 \<le> length [scenario2_finding,
                            [(''file_path'', PStr ''missing.py''), (''line_number'', PInt 3),
                             (''severity'', PStr ''warning''), (''comment'', PStr ''y'')]])"
proof -
  let ?fs = "[scenario2_finding,
              [(''file_path'', PStr ''missing.py''), (''line_number'', PInt 3),
               (''severity'', PStr ''warning''), (''comment'', PStr ''y'')]]"
  have h: "\<forall>issue \<in> set ?fs. well_formed issue" by code_simp
  have h': "well_formed scenario2_finding
      \<and> well_formed [(''file_path'', PStr ''missing.py''), (''line_number'', PInt 3),
                       (''severity'', PStr ''warning''), (''comment'', PStr ''y'')]"
    using h by simp
  from translate_skip_safety [OF h, of "[(''src/config.py'', [(8, 5)])]"] h'
  show ?thesis by blast
qed

text \<open>
  Claim C7 (order preservation): the output holds exactly one record for each finding that
  is not skipped, in the order of the findings; findings that repeat are not merged, so
  the output has as many records as there are surviving findings.
\<close>

theorem translate_order_preserved:
  assumes "\<forall>issue \<in> set findings. severity_is_str issue"
  shows "map_ai_response_to_github_format findings index
           = Inr (List.map_filter (comment_for index) findings)
         \<and> (\<forall>out. map_ai_response_to_github_format findings index = Inr out \<longrightarrow>
               length out = length (filter (\<lambda>issue. comment_for index issue \<noteq> None) findings))"
proof -
  have "map_ai_response_to_github_format findings index
          = Inr (List.map_filter (comment_for index) findings)"
    using translate_loop_spec [OF assms, of index "[]"]
    by (simp add: map_ai_response_to_github_format_def)
  moreover have "length (List.map_filter (comment_for index) findings)
          = length (filter (\<lambda>issue. comment_for index issue \<noteq> None) findings)"
    by (simp add: map_filter_def)
  ultimately show ?thesis by simp
qed

theorem translate_order_preserved_witness:
  "map_ai_response_to_github_format
        [[(''file_path'', PStr ''a.py''), (''line_number'', PInt 2),
          (''severity'', PStr ''warning''), (''comment'', PStr ''w'')],
         [(''file_path'', PStr ''missing.py''), (''line_number'', PInt 3)],
         [(''file_path'', PStr ''a.py''), (''line_number'', PInt 1),
          (''comment'', PStr ''v'')],
         [(''file_path'', PStr ''a.py''), (''line_number'', PInt 2),
          (''severity'', PStr ''warning''), (''comment'', PStr ''w'')]]
        [(''a.py'', [(1, 1), (2, 2)])]
      = Inr [\<lparr>path = PStr ''a.py'', position = 2, body = ''**[WARNING]** w''\<rparr>,
             \<lparr>path = PStr ''a.py'', position = 1, body = ''**[INFO]** v''\<rparr>,
             \<lparr>path = PStr ''a.py'', position = 2, body = ''**[WARNING]** w''\<rparr>]"
proof -
  let ?fs = "[[(''file_path'', PStr ''a.py''), (''line_number'', PInt 2),
               (''severity'', PStr ''warning''), (''comment'', PStr ''w'')],
              [(''file_path'', PStr ''missing.py''), (''line_number'', PInt 3)],
              [(''file_path'', PStr ''a.py''), (''line_number'', PInt 1),
               (''comment'', PStr ''v'')],
              [(''file_path'', PStr ''a.py''), (''line_number'', PInt 2),
               (''severity'', PStr ''warning''), (''comment'', PStr ''w'')]]"
  have h: "\<forall>issue \<in> set ?fs. severity_is_str issue" by code_simp
  have m: "List.map_filter (comment_for [(''a.py'', [(1, 1), (2, 2)])]) ?fs
      = [\<lparr>path = PStr ''a.py'', position = 2, body = ''**[WARNING]** w''\<rparr>,
         \<lparr>path = PStr ''a.py'', position = 1, body = ''**[INFO]** v''\<rparr>,
         \<lparr>path = PStr ''a.py'', position = 2, body = ''**[WARNING]** w''\<rparr>]"
    by code_simp
  from translate_order_preserved [OF h, of "[(''a.py'', [(1, 1), (2, 2)])]"]
  have "map_ai_response_to_github_format ?fs [(''a.py'', [(1, 1), (2, 2)])]
          = Inr (List.map_filter (comment_for [(''a.py'', [(1, 1), (2, 2)])]) ?fs)"
    by blast
  with m show ?thesis by simp
qed

text \<open>
  Claim C9 (Scenario 5): the empty diff text gives the empty index, and against the empty
  index every list of findings, empty or not, gives the empty output list.
\<close>

theorem empty_diff_empty_output:
  "parse_diff_to_positions '''' = Inr []
   \<and> ((\<forall>issue \<in> set findings. severity_is_str issue)
        \<longrightarrow> map_ai_response_to_github_format findings [] = Inr [])"
proof -
  have "parse_diff_to_positions '''' = Inr []"
    by (simp add: parse_diff_to_positions_def str_split_def init_state_def loop_body_def
          startswith_def)
  moreover have "map_ai_response_to_github_format findings [] = Inr []"
    if "\<forall>issue \<in> set findings. severity_is_str issue"
    using translate_loop_spec [OF that, of "[]" "[]"]
    by (simp add: map_ai_response_to_github_format_def comment_for_empty [abs_def]
          map_filter_none)
  ultimately show ?thesis by blast
qed

theorem empty_diff_empty_output_witness:
  "severity_is_str scenario2_finding \<and> severity_is_str [(''file_path'', PStr ''a.py'')]
   \<and> parse_diff_to_positions '''' = Inr []
   \<and> map_ai_response_to_github_format
        [scenario2_finding, [(''file_path'', PStr ''a.py'')]] [] = Inr []"
proof -
  have h: "\<forall>issue \<in> set [scenario2_finding, [(''file_path'', PStr ''a.py'')]].
             severity_is_str issue"
    by code_simp
  have h': "severity_is_str scenario2_finding \<and> severity_is_str [(''file_path'', PStr ''a.py'')]"
    using h by simp
  from empty_diff_empty_output [of "[scenario2_finding, [(''file_path'', PStr ''a.py'')]]"] h h'
  show ?thesis by blast
qed

text \<open>
  Claim C10: a finding whose file_path and line_number are in the index is not skipped
  when optional fields are missing. Without a severity the tag is \<open>**[INFO]**\<close>, without
  a comment the text after the tag is empty, so that the body ends with the single space
  that follows the tag.
\<close>

theorem missing_optional_fields_default:
  assumes "map_of issue ''file_path'' = Some (PStr p)"
    and "map_of issue ''line_number'' = Some (PInt n)"
    and "map_of index p = Some inner" and "map_of inner n = Some pos"
    and "severity_is_str issue"
  shows "translate_loop index (issue # rest) acc =
           translate_loop index rest
             (acc @ [\<lparr>path = PStr p, position = pos,
                      body = ''**[''
                        @ (case map_of issue ''severity'' of
                             None \<Rightarrow> ''INFO'' | Some v \<Rightarrow> upper (str_of v))
                        @ '']** ''
                        @ (case map_of issue ''comment'' of
                             None \<Rightarrow> [] | Some v \<Rightarrow> py_format v)\<rparr>])
         \<and> (map_of issue ''severity'' = None \<and> map_of issue ''comment'' = None \<longrightarrow>
              map_ai_response_to_github_format [issue] index
                = Inr [\<lparr>path = PStr p, position = pos, body = ''**[INFO]** ''\<rparr>])"
  using assms
  by (auto simp: map_ai_response_to_github_format_def dict_get_def dict_get_default_def
        severity_is_str_def py_upper_str upper_info split: option.splits)

theorem missing_optional_fields_default_witness:
  "map_of [(''file_path'', PStr ''a.py''), (''line_number'', PInt 2)] ''severity'' = None
   \<and> map_of [(''file_path'', PStr ''a.py''), (''line_number'', PInt 2)] ''comment'' = None
   \<and> severity_is_str [(''file_path'', PStr ''a.py''), (''line_number'', PInt 2)]
   \<and> map_ai_response_to_github_format
        [[(''file_path'', PStr ''a.py''), (''line_number'', PInt 2)]]
        [(''a.py'', [(1, 1), (2, 3)])]
      = Inr [\<lparr>path = PStr ''a.py'', position = 3, body = ''**[INFO]** ''\<rparr>]"
proof -
  let ?issue = "[(''file_path'', PStr ''a.py''), (''line_number'', PInt 2)]"
  have h1: "map_of ?issue ''file_path'' = Some (PStr ''a.py'')" by simp
  have h2: "map_of ?issue ''line_number'' = Some (PInt 2)" by simp
  have h3: "map_of [(''a.py'', [(1, 1), (2, 3)])] ''a.py'' = Some [(1::int, 1::int), (2, 3)]"
    by simp
  have h4: "map_of [(1::int, 1::int), (2, 3)] 2 = Some 3" by simp
  have h5: "severity_is_str ?issue" by code_simp
  have h6: "map_of ?issue ''severity'' = None \<and> map_of ?issue ''comment'' = None" by simp
  from missing_optional_fields_default [OF h1 h2 h3 h4 h5] h6
  have "map_ai_response_to_github_format [?issue] [(''a.py'', [(1, 1), (2, 3)])]
          = Inr [\<lparr>path = PStr ''a.py'', position = 3, body = ''**[INFO]** ''\<rparr>]"
    by blast
  with h5 h6 show ?thesis by blast
qed

end
